theory Spec2Isabelle
  imports Complex_Main "HOL-Library.Log_Nat" "HOL-Library.Multiset"
begin

section \<open>Data model\<close>

text \<open>
  The intake form of \<^verbatim>\<open>pages/Course_Recommendation.py\<close> offers closed lists of
  options for its select boxes and multiselects. A widget can only return one of its
  options, so each option list is a datatype, and the function beside it gives the string
  the widget hands to the program.
\<close>

datatype gender_option = Gender_Select | Gender_Male | Gender_Female | Gender_Other

fun gender_label :: "gender_option \<Rightarrow> string" where
  "gender_label Gender_Select = ''Select''"
| "gender_label Gender_Male = ''Male''"
| "gender_label Gender_Female = ''Female''"
| "gender_label Gender_Other = ''Other''"

datatype education_option =
  High_School | Undergraduate | Postgraduate | Professional_Degree | Doctoral

fun education_label :: "education_option \<Rightarrow> string" where
  "education_label High_School = ''High School''"
| "education_label Undergraduate = ''Undergraduate''"
| "education_label Postgraduate = ''Postgraduate''"
| "education_label Professional_Degree = ''Professional Degree''"
| "education_label Doctoral = ''Doctoral''"

datatype field_option =
  Computer_Science | Engineering | Data_Science | Business | Arts_Humanities
  | Social_Sciences | Natural_Sciences | Field_Other

fun field_label :: "field_option \<Rightarrow> string" where
  "field_label Computer_Science = ''Computer Science''"
| "field_label Engineering = ''Engineering''"
| "field_label Data_Science = ''Data Science''"
| "field_label Business = ''Business''"
| "field_label Arts_Humanities = ''Arts & Humanities''"
| "field_label Social_Sciences = ''Social Sciences''"
| "field_label Natural_Sciences = ''Natural Sciences''"
| "field_label Field_Other = ''Other''"

datatype skill_option =
  Programming | Data_Analysis | Machine_Learning | Web_Development | Cloud_Computing
  | Skill_Cybersecurity | Skill_None

fun skill_label :: "skill_option \<Rightarrow> string" where
  "skill_label Programming = ''Programming''"
| "skill_label Data_Analysis = ''Data Analysis''"
| "skill_label Machine_Learning = ''Machine Learning''"
| "skill_label Web_Development = ''Web Development''"
| "skill_label Cloud_Computing = ''Cloud Computing''"
| "skill_label Skill_Cybersecurity = ''Cybersecurity''"
| "skill_label Skill_None = ''None''"

datatype interest_option =
  Software_Development | Interest_Data_Science | Artificial_Intelligence
  | Cloud_Technologies | Digital_Marketing | Business_Analytics | UX_UI_Design
  | Interest_Cybersecurity

fun interest_label :: "interest_option \<Rightarrow> string" where
  "interest_label Software_Development = ''Software Development''"
| "interest_label Interest_Data_Science = ''Data Science''"
| "interest_label Artificial_Intelligence = ''Artificial Intelligence''"
| "interest_label Cloud_Technologies = ''Cloud Technologies''"
| "interest_label Digital_Marketing = ''Digital Marketing''"
| "interest_label Business_Analytics = ''Business Analytics''"
| "interest_label UX_UI_Design = ''UX/UI Design''"
| "interest_label Interest_Cybersecurity = ''Cybersecurity''"

text \<open>
  What the user has entered when the script runs: the state of every widget of the form
  and whether the submit button was pressed. Marks are Python floats: a float is
  modelled as the rational number it denotes.
\<close>

record form_input =
  name_input :: string
  email_input :: string
  phone_input :: string
  roll_no_input :: string
  age_input :: int
  gender_input :: gender_option
  education_input :: education_option
  field_input :: field_option
  marks_input :: rat
  skills_input :: "skill_option list"
  interests_input :: "interest_option list"
  submit_button :: bool

text \<open>The dictionary \<^verbatim>\<open>student_data\<close>: always the same eleven keys.\<close>

record student_data =
  name :: string
  email :: string
  phone :: string
  roll_no :: string
  age :: int
  gender :: string
  education_level :: string
  field_of_study :: string
  previous_marks :: rat
  technical_skills :: "string list"
  learning_interests :: "string list"

text \<open>What the script shows to the user, in order.\<close>

datatype ui =
  Title string | Header string | Subheader string
  | Error string | Success string | Info string | Warning string
  | Write "string list"

text \<open>
  Exceptions: \<^verbatim>\<open>pymongo.errors.DuplicateKeyError\<close> and any other \<^verbatim>\<open>Exception\<close>,
  each with the text \<^verbatim>\<open>str(e)\<close> gives.
\<close>

datatype exn = DuplicateKeyError string | Exception string

section \<open>Intake: the form\<close>

definition form_headings :: "ui list" where
  "form_headings =
     [Header ''Student Profile & Learning Recommendation'',
      Subheader ''Academic Information'',
      Subheader ''Performance & Skills'']"

definition collect_student_details :: "form_input \<Rightarrow> ui list \<times> student_data option" where
  "collect_student_details f =
     (if submit_button f then
        (if name_input f = [] then
           (form_headings @ [Error ''Full Name is required''], None)
         else
           (form_headings,
            Some \<lparr> name = name_input f,
                   email = email_input f,
                   phone = phone_input f,
                   roll_no = roll_no_input f,
                   age = age_input f,
                   gender = gender_label (gender_input f),
                   education_level = education_label (education_input f),
                   field_of_study = field_label (field_input f),
                   previous_marks = marks_input f,
                   technical_skills = map skill_label (skills_input f),
                   learning_interests = map interest_label (interests_input f) \<rparr>))
      else (form_headings, None))"

section \<open>Intake: the language model and the course list\<close>

text \<open>Python's \<^verbatim>\<open>', '.join(xs)\<close>.\<close>

fun join_comma :: "string list \<Rightarrow> string" where
  "join_comma [] = []"
| "join_comma [x] = x"
| "join_comma (x # y # ys) = x @ '', '' @ join_comma (y # ys)"

text \<open>
  The prompt of \<^verbatim>\<open>analyze_student_profile\<close>. How Python prints a float is a
  parameter (\<open>str_float\<close>); the generative model is a parameter too (\<open>gemini\<close>): given
  the prompt it returns the text of its answer or raises.
\<close>

definition prompt_of :: "(rat \<Rightarrow> string) \<Rightarrow> student_data \<Rightarrow> string" where
  "prompt_of str_float d =
     [CHR 0x0A] @
     ''        Analyze the following student profile and suggest personalized learning paths:'' @ [CHR 0x0A] @
     ''        '' @ [CHR 0x0A] @
     ''        Profile Details:'' @ [CHR 0x0A] @
     ''        - Education Level: '' @ education_level d @ [CHR 0x0A] @
     ''        - Field of Study: '' @ field_of_study d @ [CHR 0x0A] @
     ''        - Previous Marks: '' @ str_float (previous_marks d) @ ''%'' @ [CHR 0x0A] @
     ''        - Technical Skills: '' @ join_comma (technical_skills d) @ [CHR 0x0A] @
     ''        - Learning Interests: '' @ join_comma (learning_interests d) @ [CHR 0x0A] @
     ''        '' @ [CHR 0x0A] @
     ''        Provide a detailed recommendation for online courses, learning platforms, '' @ [CHR 0x0A] @
     ''        and potential career growth paths based on this profile.'' @ [CHR 0x0A] @
     ''        ''"

definition analyze_student_profile ::
  "(rat \<Rightarrow> string) \<Rightarrow> (string \<Rightarrow> exn + string) \<Rightarrow> student_data \<Rightarrow> exn + string" where
  "analyze_student_profile str_float gemini d = gemini (prompt_of str_float d)"

record course =
  platform :: string
  title :: string
  url :: string
  difficulty :: string

definition recommend_courses :: "string \<Rightarrow> course list" where
  "recommend_courses analysis =
     [\<lparr> platform = ''Coursera'',
        title = ''Machine Learning Specialization'',
        url = ''https://www.coursera.org/specializations/machine-learning'',
        difficulty = ''Intermediate'' \<rparr>,
      \<lparr> platform = ''Udemy'',
        title = ''Complete Python Bootcamp'',
        url = ''https://www.udemy.com/course/complete-python-bootcamp/'',
        difficulty = ''Beginner'' \<rparr>]"

section \<open>The document store\<close>

text \<open>
  The collection \<^verbatim>\<open>students\<close>: documents in the order of their insertion, each with
  its \<^verbatim>\<open>_id\<close> and the fields the application wrote. The only writer is
  \<^verbatim>\<open>save_student_data\<close>, so every document has the eleven fields of \<open>student_data\<close>.
\<close>

type_synonym document = "nat \<times> student_data"
type_synonym collection = "document list"

definition names_of :: "collection \<Rightarrow> string list" where
  "names_of c = map (\<lambda>doc. name (snd doc)) c"

text \<open>
  The unique index on \<^verbatim>\<open>name\<close> that \<^verbatim>\<open>__init__\<close> creates: the store refuses a
  write that would leave two documents with one name.
\<close>

definition unique_index :: "collection \<Rightarrow> bool" where
  "unique_index c = distinct (names_of c)"

definition fresh_id :: "collection \<Rightarrow> nat" where
  "fresh_id c = Suc (fold max (map fst c) 0)"

text \<open>
  \<^verbatim>\<open>$set\<close> of all the fields of \<open>d\<close> on the first document whose name is \<open>n\<close>;
  \<open>None\<close> when no document matches.
\<close>

fun set_first :: "string \<Rightarrow> student_data \<Rightarrow> collection \<Rightarrow> collection option" where
  "set_first n d [] = None"
| "set_first n d (doc # c) =
     (if name (snd doc) = n then Some ((fst doc, d) # c)
      else (case set_first n d c of None \<Rightarrow> None | Some c' \<Rightarrow> Some (doc # c')))"

text \<open>
  \<^verbatim>\<open>update_one({"name": n}, {"$set": d}, upsert=True)\<close>. The first argument is what
  the environment does to this call: \<open>Some e\<close> when the call fails with \<open>e\<close> before
  anything is written. The result is the \<^verbatim>\<open>upserted_id\<close> and the new collection.
\<close>

definition update_one ::
  "exn option \<Rightarrow> string \<Rightarrow> student_data \<Rightarrow> collection \<Rightarrow> exn + (nat option \<times> collection)" where
  "update_one fault n d c =
     (case fault of
        Some e \<Rightarrow> Inl e
      | None \<Rightarrow>
          (let r = (case set_first n d c of
                      Some c' \<Rightarrow> (None, c')
                    | None \<Rightarrow> (Some (fresh_id c), c @ [(fresh_id c, d)]))
           in if unique_index (snd r) then Inr r
              else Inl (DuplicateKeyError ''E11000 duplicate key error'')))"

definition save_student_data ::
  "exn option \<Rightarrow> student_data \<Rightarrow> collection \<Rightarrow> ui list \<times> collection" where
  "save_student_data fault d c =
     (case update_one fault (name d) d c of
        Inr (upserted_id, c') \<Rightarrow>
          (if upserted_id \<noteq> None
           then ([Success (''New student profile created for '' @ name d)], c')
           else ([Info (''Profile updated for '' @ name d)], c'))
      | Inl (DuplicateKeyError m) \<Rightarrow>
          ([Error (''Error: A profile with the name '' @ name d @ '' already exists.'')], c)
      | Inl (Exception m) \<Rightarrow>
          ([Error (''An error occurred while saving the profile: '' @ m)], c))"

text \<open>A sequence of submissions, each with what the environment does to its store call.\<close>

fun save_sequence :: "collection \<Rightarrow> (exn option \<times> student_data) list \<Rightarrow> collection" where
  "save_sequence c [] = c"
| "save_sequence c ((fault, d) # subs) = save_sequence (snd (save_student_data fault d c)) subs"

section \<open>Intake: the main flow\<close>

definition course_lines :: "course \<Rightarrow> ui list" where
  "course_lines k =
     [Write [''**'' @ title k @ ''** on '' @ platform k],
      Write [''Difficulty: '' @ difficulty k],
      Write [''[Enroll Now]('' @ url k @ '')'']]"

text \<open>
  \<^verbatim>\<open>run\<close>: the exception that left it (if any), what was shown, and the collection
  afterwards.
\<close>

definition run ::
  "(rat \<Rightarrow> string) \<Rightarrow> (string \<Rightarrow> exn + string) \<Rightarrow> exn option \<Rightarrow> form_input \<Rightarrow> collection
     \<Rightarrow> exn option \<times> ui list \<times> collection" where
  "run str_float gemini fault f c =
     (let heading = [Title ''Personalized Learning Recommendation Platform''];
          (shown, student) = collect_student_details f
      in case student of
           None \<Rightarrow> (None, heading @ shown, c)
         | Some d \<Rightarrow>
             (case analyze_student_profile str_float gemini d of
                Inl e \<Rightarrow> (Some e, heading @ shown, c)
              | Inr analysis \<Rightarrow>
                  (let recommended_courses = recommend_courses analysis;
                       (saved, c') = save_student_data fault d c
                   in (None,
                       heading @ shown @ [Write [''Profile Analysis:'', analysis]]
                         @ [Subheader ''Recommended Courses'']
                         @ concat (map course_lines recommended_courses) @ saved,
                       c'))))"

section \<open>Floating point\<close>

text \<open>
  Marks are Python floats (binary64). A float is the rational number it denotes; what
  makes it a float is that every arithmetic operation rounds its exact result to the
  nearest number with a 53-bit significand, ties to the even significand. The exponent
  range is not modelled: marks lie between 0 and 100, far from overflow and underflow.
\<close>

definition round_half_even :: "rat \<Rightarrow> int" where
  "round_half_even x =
     (let f = \<lfloor>x\<rfloor>; r = x - of_int f
      in if r < 1 / 2 then f else if 1 / 2 < r then f + 1 else if even f then f else f + 1)"

text \<open>The binary exponent of a positive number: \<open>2 powi exponent x \<le> x < 2 powi (exponent x + 1)\<close>.\<close>

definition exponent :: "rat \<Rightarrow> int" where
  "exponent x =
     (let k = bitlen (fst (quotient_of x)) - bitlen (snd (quotient_of x))
      in if 2 powi k \<le> x then k else k - 1)"

definition round_float64 :: "rat \<Rightarrow> rat" where
  "round_float64 x =
     (if x = 0 then 0
      else (let u = 2 powi (exponent \<bar>x\<bar> - 52)
            in sgn x * of_int (round_half_even (\<bar>x\<bar> / u)) * u))"

definition fadd :: "rat \<Rightarrow> rat \<Rightarrow> rat" where
  "fadd a b = round_float64 (a + b)"

definition fsub :: "rat \<Rightarrow> rat \<Rightarrow> rat" where
  "fsub a b = round_float64 (a - b)"

definition fdiv :: "rat \<Rightarrow> rat \<Rightarrow> rat" where
  "fdiv a b = round_float64 (a / b)"

section \<open>Reporting\<close>

text \<open>
  The data frame: the rows in the order the store returns them, without \<^verbatim>\<open>_id\<close>.
\<close>

definition get_students_dataframe :: "collection \<Rightarrow> student_data list" where
  "get_students_dataframe c = (if c \<noteq> [] then map snd c else [])"

text \<open>
  \<^verbatim>\<open>Series.value_counts()\<close> as the map from each value that occurs to the number of
  its occurrences. The order in which pandas lists the entries (descending count) is
  presentation and is not modelled.
\<close>

definition value_counts :: "'a list \<Rightarrow> ('a \<rightharpoonup> nat)" where
  "value_counts xs = (\<lambda>k. if k \<in> set xs then Some (count_list xs k) else None)"

definition education_counts :: "student_data list \<Rightarrow> (string \<rightharpoonup> nat)" where
  "education_counts df = value_counts (map education_level df)"

definition field_counts :: "student_data list \<Rightarrow> (string \<rightharpoonup> nat)" where
  "field_counts df = value_counts (map field_of_study df)"

text \<open>
  \<^verbatim>\<open>df.groupby('education_level')['previous_marks'].mean()\<close>. pandas goes through the
  rows once, in their order, and keeps for each education level a compensated (Kahan)
  float sum of the marks and the number of rows; the mean of a level is its sum divided
  by its number of rows. Every operation is a float operation.
\<close>

record group_acc =
  sumx :: rat
  compensation :: rat
  nobs :: nat

definition zero_acc :: group_acc where
  "zero_acc = \<lparr> sumx = 0, compensation = 0, nobs = 0 \<rparr>"

definition kahan_step :: "group_acc \<Rightarrow> rat \<Rightarrow> group_acc" where
  "kahan_step a val =
     (let y = fsub val (compensation a);
          t = fadd (sumx a) y
      in \<lparr> sumx = t, compensation = fsub (fsub t (sumx a)) y, nobs = Suc (nobs a) \<rparr>)"

fun group_mean :: "(string \<rightharpoonup> group_acc) \<Rightarrow> student_data list \<Rightarrow> (string \<rightharpoonup> group_acc)" where
  "group_mean accs [] = accs"
| "group_mean accs (r # df) =
     group_mean
       (accs (education_level r \<mapsto>
          kahan_step (case accs (education_level r) of None \<Rightarrow> zero_acc | Some a \<Rightarrow> a)
            (previous_marks r)))
       df"

definition group_result :: "group_acc \<Rightarrow> rat" where
  "group_result a = fdiv (sumx a) (of_nat (nobs a))"

definition avg_marks :: "student_data list \<Rightarrow> (string \<rightharpoonup> rat)" where
  "avg_marks df = (\<lambda>k. map_option group_result (group_mean Map.empty df k))"

text \<open>The marks of the rows of one education level, in the order of the rows.\<close>

definition marks_of :: "string \<Rightarrow> student_data list \<Rightarrow> rat list" where
  "marks_of k df = map previous_marks (filter (\<lambda>r. education_level r = k) df)"

definition all_skills :: "student_data list \<Rightarrow> string list" where
  "all_skills df = concat (map technical_skills df)"

definition skill_counts :: "student_data list \<Rightarrow> (string \<rightharpoonup> nat)" where
  "skill_counts df = value_counts (all_skills df)"

definition all_interests :: "student_data list \<Rightarrow> string list" where
  "all_interests df = concat (map learning_interests df)"

definition interest_counts :: "student_data list \<Rightarrow> (string \<rightharpoonup> nat)" where
  "interest_counts df = value_counts (all_interests df)"

text \<open>
  What \<^verbatim>\<open>render_dashboard\<close> puts on the page, in order: titles and messages, the
  charts with their title and the data behind them, and the table.
\<close>

datatype drawn =
  Shown ui
  | Pie_Chart string "string \<rightharpoonup> nat"
  | Bar_Chart string "string \<rightharpoonup> nat"
  | Mean_Chart string "string \<rightharpoonup> rat"
  | Box_Plot string "rat list"
  | Data_Frame "student_data list"

text \<open>The page title starts with the bar chart emoji, four bytes in UTF-8.\<close>

definition dashboard_title :: string where
  "dashboard_title =
     [CHR 0xF0, CHR 0x9F, CHR 0x93, CHR 0x8A] @ '' Student Insights Dashboard''"

text \<open>
  \<^verbatim>\<open>render_dashboard\<close>: the exception that left it (if any) and what was drawn before.
  \<^verbatim>\<open>px.bar\<close> is given the labels as \<^verbatim>\<open>x\<close> and the counts as \<^verbatim>\<open>y\<close>; when both are
  empty, which happens for the skills chart when no row has a technical skill, it raises
  a \<^verbatim>\<open>ValueError\<close>, and nothing after that chart is drawn.
\<close>

definition render_dashboard :: "collection \<Rightarrow> exn option \<times> drawn list" where
  "render_dashboard c =
     (let df = get_students_dataframe c
      in if df = [] then
           (None, [Shown (Title dashboard_title),
                   Shown (Warning ''No student data available.'')])
         else
           (let upper =
                  [Shown (Title dashboard_title),
                   Shown (Subheader ''Education Level Distribution''),
                   Pie_Chart ''Students by Education Level'' (education_counts df),
                   Shown (Subheader ''Field of Study Breakdown''),
                   Bar_Chart ''Students Across Different Fields'' (field_counts df),
                   Shown (Subheader ''Performance Analysis''),
                   Box_Plot ''Previous Marks Distribution'' (map previous_marks df),
                   Mean_Chart ''Average Marks by Education Level'' (avg_marks df),
                   Shown (Subheader ''Technical Skills Landscape'')]
            in if all_skills df = [] then
                 (Some (Exception
                    ''Cannot accept list of column references or list of columns for both `x` and `y`.''),
                  upper)
               else
                 (None,
                  upper @
                  [Bar_Chart ''Distribution of Technical Skills'' (skill_counts df),
                   Shown (Subheader ''Learning Interests Overview''),
                   Pie_Chart ''Student Learning Interests'' (interest_counts df),
                   Shown (Subheader ''Student Details''),
                   Data_Frame df])))"

section \<open>Sample inputs\<close>

text \<open>
  A submitted form, the dictionary built from it, a later submission under the same name,
  and stand-ins for the float printer and for an answering and a failing generative model.
\<close>

definition example_form :: form_input where
  "example_form =
     \<lparr> name_input = ''Asha'', email_input = ''asha@example.com'', phone_input = [],
       roll_no_input = ''17'', age_input = 20, gender_input = Gender_Female,
       education_input = Undergraduate, field_input = Data_Science, marks_input = 75,
       skills_input = [Programming], interests_input = [Artificial_Intelligence],
       submit_button = True \<rparr>"

definition example_profile :: student_data where
  "example_profile =
     \<lparr> name = ''Asha'', email = ''asha@example.com'', phone = [], roll_no = ''17'',
       age = 20, gender = ''Female'', education_level = ''Undergraduate'',
       field_of_study = ''Data Science'', previous_marks = 75,
       technical_skills = [''Programming''],
       learning_interests = [''Artificial Intelligence''] \<rparr>"

definition example_profile_later :: student_data where
  "example_profile_later =
     example_profile \<lparr> education_level := ''Postgraduate'', previous_marks := 82 \<rparr>"

definition example_str_float :: "rat \<Rightarrow> string" where
  "example_str_float m = ''75.0''"

definition failing_gemini :: "string \<Rightarrow> exn + string" where
  "failing_gemini prompt = Inl (Exception ''503 The service is currently unavailable.'')"

definition working_gemini :: "string \<Rightarrow> exn + string" where
  "working_gemini prompt = Inr ''Start with an introductory machine learning course.''"

text \<open>
  Three students of one education level whose marks were entered as 77.1, 31.8 and 55.0:
  the marks are the floats nearest to these decimals.
\<close>

definition student_a :: student_data where
  "student_a = example_profile \<lparr> name := ''Bala'', previous_marks := round_float64 (771 / 10) \<rparr>"

definition student_b :: student_data where
  "student_b = example_profile \<lparr> name := ''Chen'', previous_marks := round_float64 (318 / 10) \<rparr>"

definition student_c :: student_data where
  "student_c = example_profile \<lparr> name := ''Dara'', previous_marks := 55 \<rparr>"


section \<open>Properties of the store\<close>

lemma names_of_simps:
  "names_of [] = []"
  "names_of (doc # c) = name (snd doc) # names_of c"
  "names_of (c @ c') = names_of c @ names_of c'"
  by (simp_all add: names_of_def)

lemma set_first_None: "set_first n d c = None \<longleftrightarrow> n \<notin> set (names_of c)"
  by (induction c) (auto simp: names_of_simps split: option.splits)

lemma set_first_names:
  "set_first n d c = Some c' \<Longrightarrow> name d = n \<Longrightarrow> names_of c' = names_of c"
  by (induction c arbitrary: c') (auto simp: names_of_simps split: if_splits option.splits)

lemma set_first_length: "set_first n d c = Some c' \<Longrightarrow> length c' = length c"
  by (induction c arbitrary: c') (auto split: if_splits option.splits)

lemma filter_absent:
  "n \<notin> set (names_of c) \<Longrightarrow> filter (\<lambda>r. name r = n) (map snd c) = []"
  by (induction c) (auto simp: names_of_simps)

lemma set_first_filter:
  "set_first n d c = Some c' \<Longrightarrow> name d = n \<Longrightarrow> distinct (names_of c) \<Longrightarrow>
   filter (\<lambda>r. name r = n) (map snd c') = [d]"
proof (induction c arbitrary: c')
  case Nil
  then show ?case by simp
next
  case (Cons doc c)
  show ?case
  proof (cases "name (snd doc) = n")
    case True
    with Cons.prems have c': "c' = (fst doc, d) # c" and "n \<notin> set (names_of c)"
      by (auto simp: names_of_simps)
    then have "filter (\<lambda>r. name r = n) (map snd c) = []"
      by (simp add: filter_absent)
    with c' Cons.prems(2) show ?thesis by simp
  next
    case False
    with Cons.prems obtain c'' where "set_first n d c = Some c''" "c' = doc # c''"
      by (auto split: option.splits)
    with Cons False show ?thesis by (auto simp: names_of_simps)
  qed
qed

lemma update_one_found:
  "unique_index c \<Longrightarrow> set_first (name d) d c = Some c' \<Longrightarrow>
   update_one None (name d) d c = Inr (None, c')"
  by (simp add: update_one_def unique_index_def set_first_names)

lemma update_one_fresh:
  "unique_index c \<Longrightarrow> set_first (name d) d c = None \<Longrightarrow>
   update_one None (name d) d c = Inr (Some (fresh_id c), c @ [(fresh_id c, d)])"
proof -
  assume u: "unique_index c" and n: "set_first (name d) d c = None"
  from n have "name d \<notin> set (names_of c)" by (simp add: set_first_None)
  with u n show ?thesis by (simp add: update_one_def unique_index_def names_of_simps)
qed

lemma update_one_fault: "update_one (Some e) n d c = Inl e"
  by (simp add: update_one_def)

lemma save_found:
  "unique_index c \<Longrightarrow> set_first (name d) d c = Some c' \<Longrightarrow>
   save_student_data None d c = ([Info (''Profile updated for '' @ name d)], c')"
  by (simp add: save_student_data_def update_one_found)

lemma save_fresh:
  "unique_index c \<Longrightarrow> set_first (name d) d c = None \<Longrightarrow>
   save_student_data None d c =
     ([Success (''New student profile created for '' @ name d)], c @ [(fresh_id c, d)])"
  by (simp add: save_student_data_def update_one_fresh)

lemma save_fault_store: "snd (save_student_data (Some e) d c) = c"
  by (cases e) (simp_all add: save_student_data_def update_one_fault)

lemma save_unique: "unique_index c \<Longrightarrow> unique_index (snd (save_student_data fault d c))"
proof (cases fault)
  case None
  assume u: "unique_index c"
  show ?thesis
  proof (cases "set_first (name d) d c")
    case N: None
    with u None show ?thesis
      by (simp add: save_fresh unique_index_def names_of_simps set_first_None)
  next
    case (Some c')
    with u None show ?thesis
      by (simp add: save_found unique_index_def set_first_names)
  qed
next
  case (Some e)
  assume "unique_index c"
  with Some show ?thesis by (simp add: save_fault_store)
qed

lemma save_sequence_unique: "unique_index c \<Longrightarrow> unique_index (save_sequence c subs)"
  by (induction c subs rule: save_sequence.induct) (auto simp: save_unique)

lemma save_sequence_append:
  "save_sequence c (subs @ subs') = save_sequence (save_sequence c subs) subs'"
  by (induction c subs rule: save_sequence.induct) auto

lemma dataframe_rows: "get_students_dataframe c = map snd c"
  by (simp add: get_students_dataframe_def)

lemma save_filter_same:
  assumes "unique_index c"
  shows "filter (\<lambda>r. name r = name d) (get_students_dataframe (snd (save_student_data None d c))) = [d]"
proof (cases "set_first (name d) d c")
  case None
  then have "filter (\<lambda>r. name r = name d) (map snd c) = []"
    by (simp add: set_first_None filter_absent)
  with None assms show ?thesis by (simp add: save_fresh dataframe_rows)
next
  case (Some c')
  with assms show ?thesis
    by (simp add: save_found dataframe_rows set_first_filter unique_index_def)
qed

lemma save_length_same:
  assumes "unique_index c" "name d \<in> set (names_of c)"
  shows "length (snd (save_student_data None d c)) = length c"
proof -
  from assms(2) obtain c' where "set_first (name d) d c = Some c'"
    using set_first_None by (cases "set_first (name d) d c") auto
  with assms(1) show ?thesis by (simp add: save_found set_first_length)
qed

lemma save_names_mem:
  assumes "unique_index c"
  shows "name d \<in> set (names_of (snd (save_student_data None d c)))"
proof -
  have "filter (\<lambda>r. name r = name d) (map snd (snd (save_student_data None d c))) = [d]"
    using save_filter_same [OF assms] by (simp add: dataframe_rows)
  then have "d \<in> set (map snd (snd (save_student_data None d c)))"
    by (metis filter_is_subset list.set_intros(1) subsetD)
  then show ?thesis by (auto simp: names_of_def)
qed

lemma save_idempotent:
  assumes "unique_index c"
  shows "snd (save_student_data None d (snd (save_student_data None d c)))
         = snd (save_student_data None d c)"
proof -
  have set_first_same: "set_first (name d) d c1 = Some c1"
    if "filter (\<lambda>r. name r = name d) (map snd c1) = [d]" for c1
    using that
  proof (induction c1)
    case Nil
    then show ?case by simp
  next
    case (Cons doc c1)
    then show ?case by (cases doc) (auto split: if_splits)
  qed
  let ?c1 = "snd (save_student_data None d c)"
  have u1: "unique_index ?c1" using assms by (rule save_unique)
  have "filter (\<lambda>r. name r = name d) (map snd ?c1) = [d]"
    using save_filter_same [OF assms, of d] by (simp add: dataframe_rows)
  then have "set_first (name d) d ?c1 = Some ?c1" by (rule set_first_same)
  with u1 show ?thesis by (simp add: save_found)
qed

section \<open>Properties of the float arithmetic\<close>

lemma round_half_even_of_int: "round_half_even (of_int z) = z"
  by (simp add: round_half_even_def)

lemma round_half_even_near:
  assumes "\<bar>q - of_int m\<bar> < 1 / 2"
  shows "round_half_even q = m"
proof -
  from assms have lo: "of_int m - 1 / 2 < q" and hi: "q < of_int m + 1 / 2"
    by linarith+
  show ?thesis
  proof (cases "of_int m \<le> q")
    case True
    with hi have "\<lfloor>q\<rfloor> = m" by (intro floor_unique) auto
    with hi show ?thesis by (simp add: round_half_even_def)
  next
    case False
    with lo have f: "\<lfloor>q\<rfloor> = m - 1" by (intro floor_unique) auto
    with lo have "1 / 2 < q - of_int (m - 1)" by simp
    with f show ?thesis by (simp add: round_half_even_def Let_def)
  qed
qed

lemma bitlen_powi:
  assumes "0 < a"
  shows "(2::rat) powi (bitlen a - 1) \<le> of_int a" and "of_int a < (2::rat) powi bitlen a"
proof -
  from assms have b: "1 \<le> bitlen a" by (simp add: bitlen_alt_def)
  from bitlen_bounds [OF assms]
  have lo: "2 ^ nat (bitlen a - 1) \<le> a" and hi: "a < 2 ^ nat (bitlen a)" by auto
  from lo have "(of_int (2 ^ nat (bitlen a - 1)) :: rat) \<le> of_int a"
    by (simp only: of_int_le_iff)
  with b show "(2::rat) powi (bitlen a - 1) \<le> of_int a"
    by (simp add: power_int_nonneg_exp)
  from hi have "(of_int a :: rat) < of_int (2 ^ nat (bitlen a))"
    by (simp only: of_int_less_iff)
  with b show "of_int a < (2::rat) powi bitlen a"
    by (simp add: power_int_nonneg_exp)
qed

lemma exponent_bounds:
  assumes "0 < x"
  shows "2 powi exponent x \<le> x" and "x < 2 powi (exponent x + 1)"
proof -
  obtain a b where q: "quotient_of x = (a, b)" by (cases "quotient_of x")
  then have x: "x = of_int a / of_int b" and b: "0 < b"
    by (simp_all add: quotient_of_div quotient_of_denom_pos)
  with assms have a: "0 < a" by (simp add: zero_less_divide_iff)
  let ?k = "bitlen a - bitlen b"
  have bp: "(0::rat) < of_int b" using b by simp
  have up: "x < 2 powi (?k + 1)"
  proof -
    have "of_int a < (2::rat) powi bitlen a" using a by (rule bitlen_powi)
    also have "\<dots> = 2 powi (?k + 1) * 2 powi (bitlen b - 1)"
      by (simp flip: power_int_add)
    also have "\<dots> \<le> 2 powi (?k + 1) * of_int b"
      using bitlen_powi(1) [OF b] by (intro mult_left_mono) auto
    finally show ?thesis using bp by (simp add: x pos_divide_less_eq)
  qed
  have lo: "2 powi (?k - 1) \<le> x"
  proof -
    have "2 powi (?k - 1) * of_int b \<le> (2::rat) powi (?k - 1) * 2 powi bitlen b"
      using bitlen_powi(2) [OF b] by (intro mult_left_mono) auto
    also have "\<dots> = 2 powi (bitlen a - 1)"
      by (simp flip: power_int_add)
    also have "\<dots> \<le> of_int a" using a by (rule bitlen_powi)
    finally show ?thesis using bp by (simp add: x pos_le_divide_eq)
  qed
  from q up lo show "2 powi exponent x \<le> x" and "x < 2 powi (exponent x + 1)"
    by (auto simp: exponent_def Let_def)
qed

lemma exponent_unique:
  assumes "0 < x" "2 powi k \<le> x" "x < 2 powi (k + 1)"
  shows "exponent x = k"
proof -
  from exponent_bounds [OF assms(1)] assms(2,3)
  have "(2::rat) powi exponent x < 2 powi (k + 1)" "(2::rat) powi k < 2 powi (exponent x + 1)"
    by auto
  then have "\<not> k + 1 \<le> exponent x" "\<not> exponent x + 1 \<le> k"
    using power_int_increasing [of "k + 1" "exponent x" "2::rat"]
      power_int_increasing [of "exponent x + 1" k "2::rat"] by auto
  then show ?thesis by simp
qed


lemma round_float64_exact:
  assumes "x = of_int m * 2 powi e" "\<bar>m\<bar> < 2 ^ 53"
  shows "round_float64 x = x"
proof (cases "x = 0")
  case True
  then show ?thesis by (simp add: round_float64_def)
next
  case False
  let ?E = "exponent \<bar>x\<bar>"
  have pos: "0 < \<bar>x\<bar>" using False by simp
  have ax: "\<bar>x\<bar> = of_int \<bar>m\<bar> * 2 powi e"
    by (simp add: assms(1) abs_mult power_int_abs)
  have "(of_int \<bar>m\<bar> :: rat) < of_int (2 ^ 53)"
    using assms(2) by (simp only: of_int_less_iff)
  then have "\<bar>x\<bar> < 2 powi 53 * 2 powi e"
    unfolding ax by (intro mult_strict_right_mono) auto
  then have "\<bar>x\<bar> < 2 powi (53 + e)" by (simp add: power_int_add)
  with exponent_bounds(1) [OF pos] have "(2::rat) powi ?E < 2 powi (53 + e)" by simp
  then have "\<not> 53 + e \<le> ?E"
    using power_int_increasing [of "53 + e" ?E "2::rat"] by auto
  then have d: "0 \<le> e - (?E - 52)" by simp
  have "\<bar>x\<bar> / 2 powi (?E - 52) = of_int \<bar>m\<bar> * 2 powi (e - (?E - 52))"
    by (simp add: ax power_int_diff)
  also have "\<dots> = of_int (\<bar>m\<bar> * 2 ^ nat (e - (?E - 52)))"
    using d by (simp add: power_int_nonneg_exp)
  finally have "round_half_even (\<bar>x\<bar> / 2 powi (?E - 52)) = \<bar>m\<bar> * 2 ^ nat (e - (?E - 52))"
    by (simp only: round_half_even_of_int)
  then have "round_float64 x = sgn x * of_int (\<bar>m\<bar> * 2 ^ nat (e - (?E - 52))) * 2 powi (?E - 52)"
    using False by (simp add: round_float64_def Let_def)
  also have "of_int (\<bar>m\<bar> * 2 ^ nat (e - (?E - 52))) = (of_int \<bar>m\<bar> :: rat) * 2 powi (e - (?E - 52))"
    using d by (simp add: power_int_nonneg_exp)
  also have "sgn x * (of_int \<bar>m\<bar> * 2 powi (e - (?E - 52))) * 2 powi (?E - 52) = sgn x * \<bar>x\<bar>"
    by (simp add: ax power_int_diff)
  also have "\<dots> = x" by (simp add: sgn_mult_abs)
  finally show ?thesis .
qed

lemma round_float64_near:
  assumes "0 < x" "2 powi (e + 52) \<le> x" "x < 2 powi (e + 53)"
    and "\<bar>x / 2 powi e - of_int m\<bar> < 1 / 2"
  shows "round_float64 x = of_int m * 2 powi e"
proof -
  have "exponent x = e + 52"
    using assms(1,2,3) by (intro exponent_unique) (simp_all add: add.commute add.left_commute)
  moreover have "round_half_even (x / 2 powi e) = m"
    using assms(4) by (rule round_half_even_near)
  ultimately show ?thesis using assms(1) by (simp add: round_float64_def)
qed

lemma round_half_even_tie:
  assumes "q - of_int f = 1 / 2"
  shows "round_half_even q = (if even f then f else f + 1)"
proof -
  from assms have q: "q = of_int f + 1 / 2" by simp
  then have "\<lfloor>q\<rfloor> = f" by (intro floor_unique) auto
  with q show ?thesis by (simp add: round_half_even_def)
qed

lemma round_float64_tie:
  assumes "0 < x" "2 powi (e + 52) \<le> x" "x < 2 powi (e + 53)"
    and "x / 2 powi e - of_int f = 1 / 2"
  shows "round_float64 x = of_int (if even f then f else f + 1) * 2 powi e"
proof -
  have "exponent x = e + 52"
    using assms(1,2,3) by (intro exponent_unique) (simp_all add: add.commute add.left_commute)
  moreover have "round_half_even (x / 2 powi e) = (if even f then f else f + 1)"
    using assms(4) by (rule round_half_even_tie)
  ultimately show ?thesis using assms(1) by (simp add: round_float64_def)
qed



lemma round_float64_zero: "round_float64 0 = 0"
  by (simp add: round_float64_def)

section \<open>Properties of the group means\<close>



lemma nobs_foldl_kahan: "nobs (foldl kahan_step a ms) = nobs a + length ms"
  by (induction ms arbitrary: a) (simp_all add: kahan_step_def Let_def)

lemma marks_of_simps:
  "marks_of k [] = []"
  "marks_of k (r # df) =
     (if education_level r = k then previous_marks r # marks_of k df else marks_of k df)"
  by (simp_all add: marks_of_def)

lemma group_mean_lookup:
  "group_mean accs df k =
     (if marks_of k df = [] then accs k
      else Some (foldl kahan_step (case accs k of None \<Rightarrow> zero_acc | Some a \<Rightarrow> a)
                   (marks_of k df)))"
proof (induction df arbitrary: accs)
  case Nil
  then show ?case by (simp add: marks_of_simps)
next
  case (Cons r df)
  show ?case
  proof (cases "education_level r = k")
    case True
    then show ?thesis by (simp add: Cons.IH marks_of_simps)
  next
    case False
    then show ?thesis by (simp add: Cons.IH marks_of_simps)
  qed
qed

lemma avg_marks_lookup:
  "avg_marks df k =
     (if marks_of k df = [] then None
      else Some (fdiv (sumx (foldl kahan_step zero_acc (marks_of k df)))
                   (of_nat (length (marks_of k df)))))"
  by (simp add: avg_marks_def group_mean_lookup group_result_def nobs_foldl_kahan zero_acc_def)


lemma count_list_concat:
  "count_list (concat xss) k = sum_list (map (\<lambda>xs. count_list xs k) xss)"
  by (induction xss) simp_all

lemma value_counts_concat_map:
  "value_counts (concat (map g df)) k =
     (let n = sum_list (map (\<lambda>r. count_list (g r) k) df)
      in if n = 0 then None else Some n)"
proof -
  have "count_list (concat (map g df)) k = sum_list (map (\<lambda>r. count_list (g r) k) df)"
    by (simp add: count_list_concat comp_def)
  moreover have "k \<in> set (concat (map g df)) \<longleftrightarrow> count_list (concat (map g df)) k \<noteq> 0"
    by (simp add: count_list_0_iff)
  ultimately show ?thesis by (simp add: value_counts_def Let_def)
qed

lemma value_counts_mset: "mset xs = mset ys \<Longrightarrow> value_counts xs = value_counts ys"
proof -
  assume m: "mset xs = mset ys"
  then have "set xs = set ys" by (rule mset_eq_setD)
  moreover have "count_list xs k = count_list ys k" for k
    using m by (metis count_mset)
  ultimately show ?thesis by (simp add: value_counts_def fun_eq_iff)
qed

lemma mset_concat_map:
  "mset df = mset df' \<Longrightarrow> mset (concat (map g df)) = mset (concat (map g df'))"
proof -
  assume m: "mset df = mset df'"
  have "mset (concat (map g zs)) = (\<Sum>r\<in>#mset zs. mset (g r))" for zs :: "'a list"
    by (induction zs) simp_all
  with m show ?thesis by simp
qed

lemma dom_avg_marks: "dom (avg_marks df) = set (map education_level df)"
proof -
  have "marks_of k df = [] \<longleftrightarrow> k \<notin> set (map education_level df)" for k
    by (auto simp: marks_of_def filter_empty_conv)
  then show ?thesis by (auto simp: avg_marks_lookup dom_def)
qed

lemma avg_marks_from_fold:
  assumes "marks_of k df = ms" "ms \<noteq> []" "foldl kahan_step zero_acc ms = acc"
    and "fdiv (sumx acc) (of_nat (length ms)) = q"
  shows "avg_marks df k = Some q"
  using assms by (auto simp: avg_marks_lookup)

section \<open>Persistence\<close>

text \<open>
  Claim C1. The name is the uniqueness key of the collection. From a collection that
  satisfies the unique index, every sequence of submissions (whether its store calls
  succeed or fail) leaves at most one document per name; after any such sequence a
  successful submission \<open>d\<close> leaves exactly one document named \<open>name d\<close>, and it
  holds the fields of \<open>d\<close>; two successive submissions under one name leave one
  document with the fields of the second, and the second does not add a document.
\<close>

theorem name_is_unique_key:
  "unique_index c \<Longrightarrow>
     unique_index (save_sequence c subs) \<and>
     filter (\<lambda>r. name r = name d)
       (get_students_dataframe (save_sequence c (subs @ [(None, d)]))) = [d] \<and>
     (name d1 = name d2 \<longrightarrow>
        filter (\<lambda>r. name r = name d2)
          (get_students_dataframe (save_sequence c [(None, d1), (None, d2)])) = [d2] \<and>
        length (save_sequence c [(None, d1), (None, d2)]) =
          length (save_sequence c [(None, d1)]))"
proof -
  assume u: "unique_index c"
  have a: "unique_index (save_sequence c subs)"
    using u by (rule save_sequence_unique)
  have b: "filter (\<lambda>r. name r = name d)
       (get_students_dataframe (save_sequence c (subs @ [(None, d)]))) = [d]"
    using save_filter_same [OF a] by (simp add: save_sequence_append)
  have c: "filter (\<lambda>r. name r = name d2)
          (get_students_dataframe (save_sequence c [(None, d1), (None, d2)])) = [d2] \<and>
        length (save_sequence c [(None, d1), (None, d2)]) =
          length (save_sequence c [(None, d1)])" if eq: "name d1 = name d2"
  proof -
    let ?c1 = "snd (save_student_data None d1 c)"
    have u1: "unique_index ?c1" using u by (rule save_unique)
    have "name d2 \<in> set (names_of ?c1)"
      using save_names_mem [OF u, of d1] eq by simp
    with u1 have "length (snd (save_student_data None d2 ?c1)) = length ?c1"
      by (rule save_length_same)
    moreover have "filter (\<lambda>r. name r = name d2)
        (get_students_dataframe (snd (save_student_data None d2 ?c1))) = [d2]"
      using u1 by (rule save_filter_same)
    ultimately show ?thesis by simp
  qed
  from a b c show ?thesis by blast
qed

text \<open>
  The statement at a concrete input: a failed call, and two submissions under one name
  into the empty collection.
\<close>

theorem name_is_unique_key_witness:
  "unique_index [] \<and>
   unique_index (save_sequence [] [(Some (Exception ''timeout''), example_profile)]) \<and>
   get_students_dataframe
     (save_sequence [] [(None, example_profile), (None, example_profile_later)])
     = [example_profile_later] \<and>
   length (save_sequence [] [(None, example_profile), (None, example_profile_later)]) = 1"
proof -
  have u: "unique_index []" by (simp add: unique_index_def names_of_def)
  have n: "name example_profile = name example_profile_later"
    by (simp add: example_profile_later_def)
  have s: "save_sequence [] [(None, example_profile)] = [(fresh_id [], example_profile)]"
    using u by (simp add: save_fresh)
  have l: "length (save_sequence [] [(None, example_profile), (None, example_profile_later)]) = 1"
    using name_is_unique_key [OF u, of "[]" example_profile example_profile example_profile_later] n s
    by simp
  then obtain doc where
    c: "save_sequence [] [(None, example_profile), (None, example_profile_later)] = [doc]"
    by (metis One_nat_def length_0_conv length_Suc_conv)
  have "filter (\<lambda>r. name r = name example_profile_later)
          (get_students_dataframe
            (save_sequence [] [(None, example_profile), (None, example_profile_later)]))
        = [example_profile_later]"
    using name_is_unique_key [OF u, of "[]" example_profile example_profile example_profile_later] n
    by blast
  with c have "get_students_dataframe [doc] = [example_profile_later]"
    by (simp add: dataframe_rows split: if_splits)
  with c have g: "get_students_dataframe
     (save_sequence [] [(None, example_profile), (None, example_profile_later)])
     = [example_profile_later]" by simp
  have "unique_index (save_sequence [] [(Some (Exception ''timeout''), example_profile)])"
    using name_is_unique_key [OF u, of "[(Some (Exception ''timeout''), example_profile)]"
        example_profile example_profile example_profile_later]
    by blast
  with u g l show ?thesis by blast
qed

text \<open>
  Claim C2. Saving a profile \<open>P\<close> and loading all profiles gives exactly one row with
  the name of \<open>P\<close>, equal to \<open>P\<close> in every field; exactly one row equals \<open>P\<close>; and
  saving \<open>P\<close> a second time changes nothing. The profile is any dictionary the form can
  build; the collection satisfies the unique index and the store call succeeds.
\<close>

theorem upsert_then_load:
  "unique_index c \<Longrightarrow>
     filter (\<lambda>r. name r = name P)
       (get_students_dataframe (snd (save_student_data None P c))) = [P] \<and>
     length (filter (\<lambda>r. r = P)
       (get_students_dataframe (snd (save_student_data None P c)))) = 1 \<and>
     snd (save_student_data None P (snd (save_student_data None P c)))
       = snd (save_student_data None P c)"
proof -
  assume u: "unique_index c"
  let ?df = "get_students_dataframe (snd (save_student_data None P c))"
  have a: "filter (\<lambda>r. name r = name P) ?df = [P]"
    using u by (rule save_filter_same)
  have "filter (\<lambda>r. r = P) ?df = filter (\<lambda>r. r = P) (filter (\<lambda>r. name r = name P) ?df)"
    by (auto intro: filter_cong)
  with a have b: "length (filter (\<lambda>r. r = P) ?df) = 1" by simp
  from a b save_idempotent [OF u, of P] show ?thesis by blast
qed

text \<open>
  The statement at a concrete input: a later submission replaces the stored profile.
\<close>

theorem upsert_then_load_witness:
  "unique_index [(0, example_profile)] \<and>
   get_students_dataframe (snd (save_student_data None example_profile_later [(0, example_profile)]))
     = [example_profile_later]"
proof -
  have u: "unique_index [(0, example_profile)]"
    by (simp add: unique_index_def names_of_def)
  have s: "snd (save_student_data None example_profile_later [(0, example_profile)])
           = [(0, example_profile_later)]"
    using u by (simp add: save_found example_profile_later_def)
  from upsert_then_load [OF u, of example_profile_later] u s show ?thesis
    by (simp add: dataframe_rows)
qed

section \<open>Validation\<close>

text \<open>
  Claim C3. A form whose name is empty builds no dictionary; when it was submitted, the
  form shows \<^verbatim>\<open>Full Name is required\<close>. The run then ends without an exception and
  without calling the generative model or the store: the collection is the one it
  started with, whatever the store would have done.
\<close>

theorem empty_name_is_rejected:
  "name_input f = [] \<Longrightarrow>
     snd (collect_student_details f) = None \<and>
     (submit_button f \<longrightarrow>
        fst (collect_student_details f) = form_headings @ [Error ''Full Name is required'']) \<and>
     run str_float gemini fault f c =
       (None,
        [Title ''Personalized Learning Recommendation Platform'']
          @ fst (collect_student_details f),
        c)"
  by (simp add: collect_student_details_def run_def)

text \<open>
  The statement at a concrete input: the sample form with its name cleared.
\<close>

theorem empty_name_is_rejected_witness:
  "name_input (example_form \<lparr> name_input := [] \<rparr>) = [] \<and>
   submit_button (example_form \<lparr> name_input := [] \<rparr>) \<and>
   run example_str_float working_gemini None (example_form \<lparr> name_input := [] \<rparr>)
       [(0, example_profile)] =
     (None,
      [Title ''Personalized Learning Recommendation Platform''] @ form_headings
        @ [Error ''Full Name is required''],
      [(0, example_profile)])"
  using empty_name_is_rejected [of "example_form \<lparr> name_input := [] \<rparr>" example_str_float
      working_gemini None "[(0, example_profile)]"]
  by (simp add: example_form_def)

text \<open>
  Claim C9. The gender of every dictionary the form builds is one of the options of the
  select box: \<^verbatim>\<open>Male\<close>, \<^verbatim>\<open>Female\<close>, \<^verbatim>\<open>Other\<close>, or the placeholder
  \<^verbatim>\<open>Select\<close> that stands for an unset gender.
\<close>

theorem gender_in_enumeration:
  "collect_student_details f = (shown, Some d) \<Longrightarrow>
     gender d \<in> {''Male'', ''Female'', ''Other'', ''Select''}"
  by (cases "gender_input f") (auto simp: collect_student_details_def split: if_splits)

text \<open>
  The statement at a concrete input: the sample form.
\<close>

theorem gender_in_enumeration_witness:
  "collect_student_details example_form = (form_headings, Some example_profile) \<and>
   gender example_profile \<in> {''Male'', ''Female'', ''Other'', ''Select''}"
proof -
  have c: "collect_student_details example_form = (form_headings, Some example_profile)"
    by (simp add: collect_student_details_def example_form_def example_profile_def)
  from gender_in_enumeration [OF c] c show ?thesis by simp
qed

section \<open>Recommendations and failures of the services\<close>

text \<open>
  Claim C8. The course list does not depend on the analysis text: it is the same two
  records, in the same order, for every input.
\<close>

theorem recommend_courses_constant:
  "recommend_courses analysis = recommend_courses analysis' \<and>
   map platform (recommend_courses analysis) = [''Coursera'', ''Udemy''] \<and>
   map title (recommend_courses analysis)
     = [''Machine Learning Specialization'', ''Complete Python Bootcamp''] \<and>
   map url (recommend_courses analysis)
     = [''https://www.coursera.org/specializations/machine-learning'',
        ''https://www.udemy.com/course/complete-python-bootcamp/''] \<and>
   map difficulty (recommend_courses analysis) = [''Intermediate'', ''Beginner'']"
  by (simp add: recommend_courses_def)

text \<open>
  Claim C7, as stated, at a concrete input: the generative model fails on the sample
  form. The exception leaves \<^verbatim>\<open>run\<close>: nothing catches it, no error message is shown,
  and the store is not called.
\<close>

theorem model_failure_leaves_run:
  "run example_str_float failing_gemini None example_form [] =
     (Some (Exception ''503 The service is currently unavailable.''),
      [Title ''Personalized Learning Recommendation Platform''] @ form_headings,
      [])"
  by (simp add: run_def collect_student_details_def example_form_def
      analyze_student_profile_def failing_gemini_def)

text \<open>
  Claim C7, amended. When the store call of a submission fails, the exception is caught
  in \<^verbatim>\<open>save_student_data\<close>: the run ends without an exception, its last message is
  an error message, and the collection is unchanged, ready for the next submission.
\<close>

theorem store_failure_is_caught:
  "collect_student_details f = (shown, Some d) \<Longrightarrow>
   analyze_student_profile str_float gemini d = Inr analysis \<Longrightarrow>
     fst (run str_float gemini (Some e) f c) = None \<and>
     snd (snd (run str_float gemini (Some e) f c)) = c \<and>
     (\<exists>m. last (fst (snd (run str_float gemini (Some e) f c))) = Error m)"
  by (cases e) (simp_all add: run_def save_student_data_def update_one_def)

text \<open>
  The statement at a concrete input: the sample form, an answering model, a failing store.
\<close>

theorem store_failure_is_caught_witness:
  "collect_student_details example_form = (form_headings, Some example_profile) \<and>
   analyze_student_profile example_str_float working_gemini example_profile
     = Inr ''Start with an introductory machine learning course.'' \<and>
   fst (run example_str_float working_gemini (Some (Exception ''connection reset''))
          example_form []) = None \<and>
   snd (snd (run example_str_float working_gemini (Some (Exception ''connection reset''))
          example_form [])) = [] \<and>
   last (fst (snd (run example_str_float working_gemini (Some (Exception ''connection reset''))
          example_form [])))
     = Error ''An error occurred while saving the profile: connection reset''"
proof -
  have c: "collect_student_details example_form = (form_headings, Some example_profile)"
    by (simp add: collect_student_details_def example_form_def example_profile_def)
  have a: "analyze_student_profile example_str_float working_gemini example_profile
     = Inr ''Start with an introductory machine learning course.''"
    by (simp add: analyze_student_profile_def working_gemini_def)
  have l: "last (fst (snd (run example_str_float working_gemini
          (Some (Exception ''connection reset'')) example_form [])))
     = Error ''An error occurred while saving the profile: connection reset''"
    by (simp add: run_def c a save_student_data_def update_one_def)
  from store_failure_is_caught [OF c a, of "Exception ''connection reset''" "[]"] c a l
  show ?thesis by simp
qed

section \<open>Dashboard\<close>

text \<open>
  Claim C4. On the empty collection the data frame is empty and the dashboard is the
  page title and the warning \<^verbatim>\<open>No student data available.\<close> alone: no exception
  leaves it, nothing is grouped or counted, and no chart is drawn.
\<close>

theorem empty_collection_is_no_data:
  "get_students_dataframe [] = [] \<and>
   render_dashboard [] =
     (None, [Shown (Title dashboard_title), Shown (Warning ''No student data available.'')])"
  by (simp add: render_dashboard_def get_students_dataframe_def)

text \<open>
  Claim C5. The skill counts flatten the skill lists of all rows and count each tag: for
  every data frame and every tag, the count of the tag is the sum over the rows of its
  occurrences in the row's skill list, and a tag that occurs in no row has no entry. The
  interest counts do the same with the interest lists. In particular, for the lists
  \<^verbatim>\<open>["Programming", "Cloud Computing"]\<close> and \<^verbatim>\<open>["Programming"]\<close> the counts
  are Programming 2 and Cloud Computing 1, and nothing else.
\<close>

theorem skill_counts_flatten:
  "skill_counts df k =
     (let n = sum_list (map (\<lambda>r. count_list (technical_skills r) k) df)
      in if n = 0 then None else Some n) \<and>
   interest_counts df k =
     (let n = sum_list (map (\<lambda>r. count_list (learning_interests r) k) df)
      in if n = 0 then None else Some n) \<and>
   skill_counts
     [p1 \<lparr> technical_skills := [''Programming'', ''Cloud Computing''] \<rparr>,
      p2 \<lparr> technical_skills := [''Programming''] \<rparr>]
     = [''Programming'' \<mapsto> 2, ''Cloud Computing'' \<mapsto> 1] \<and>
   interest_counts
     [p1 \<lparr> learning_interests := [''Data Science'', ''Cybersecurity''] \<rparr>,
      p2 \<lparr> learning_interests := [''Data Science''] \<rparr>]
     = [''Data Science'' \<mapsto> 2, ''Cybersecurity'' \<mapsto> 1]"
proof -
  have a: "skill_counts df k =
     (let n = sum_list (map (\<lambda>r. count_list (technical_skills r) k) df)
      in if n = 0 then None else Some n)"
    unfolding skill_counts_def all_skills_def by (rule value_counts_concat_map)
  have b: "interest_counts df k =
     (let n = sum_list (map (\<lambda>r. count_list (learning_interests r) k) df)
      in if n = 0 then None else Some n)"
    unfolding interest_counts_def all_interests_def by (rule value_counts_concat_map)
  have c: "skill_counts
     [p1 \<lparr> technical_skills := [''Programming'', ''Cloud Computing''] \<rparr>,
      p2 \<lparr> technical_skills := [''Programming''] \<rparr>]
     = [''Programming'' \<mapsto> 2, ''Cloud Computing'' \<mapsto> 1]"
    by (auto simp: skill_counts_def all_skills_def value_counts_def fun_eq_iff)
  have d: "interest_counts
     [p1 \<lparr> learning_interests := [''Data Science'', ''Cybersecurity''] \<rparr>,
      p2 \<lparr> learning_interests := [''Data Science''] \<rparr>]
     = [''Data Science'' \<mapsto> 2, ''Cybersecurity'' \<mapsto> 1]"
    by (auto simp: interest_counts_def all_interests_def value_counts_def fun_eq_iff)
  from a b c d show ?thesis by blast
qed



text \<open>
  The group mean is a float computation in the order of the rows, and float addition is
  not associative. Marks entered as 77.1, 31.8 and 55.0 under one level have the mean
  54.633333333333326 in this order and 54.63333333333333 when the last two rows are
  exchanged (both the compensated and the plain float sum give these two values).
\<close>

lemma float_77_1: "round_float64 (771 / 10) = (2712715088048947 / 35184372088832)"
proof -
  have "round_float64 (771 / 10) = of_int (5425430176097894) * 2 powi (- 46)"
    by (rule round_float64_near) simp_all
  then have r: "round_float64 (771 / 10) = (2712715088048947 / 35184372088832)" by simp
  show ?thesis by (rule r)
qed

lemma float_31_8: "round_float64 (159 / 5) = (8950904259398861 / 281474976710656)"
proof -
  have "round_float64 (159 / 5) = of_int (8950904259398861) * 2 powi (- 48)"
    by (rule round_float64_near) simp_all
  then have r: "round_float64 (159 / 5) = (8950904259398861 / 281474976710656)" by simp
  show ?thesis by (rule r)
qed

lemma mean_in_first_order:
  "avg_marks [student_a, student_b, student_c] ''Undergraduate'' = Some (480559882113297 / 8796093022208)"
proof -
  have y1: "fsub (2712715088048947 / 35184372088832) 0 = (2712715088048947 / 35184372088832)"
  proof -
    have e: "((2712715088048947 / 35184372088832) :: rat) - 0 = (2712715088048947 / 35184372088832)" by simp
    have r: "round_float64 (2712715088048947 / 35184372088832) = (2712715088048947 / 35184372088832)"
      by (rule round_float64_exact [where m = "2712715088048947" and e = "- 45"]) simp_all
    show ?thesis by (simp only: fsub_def e r)
  qed
  have t1: "fadd 0 (2712715088048947 / 35184372088832) = (2712715088048947 / 35184372088832)"
  proof -
    have e: "(0 :: rat) + (2712715088048947 / 35184372088832) = (2712715088048947 / 35184372088832)" by simp
    have r: "round_float64 (2712715088048947 / 35184372088832) = (2712715088048947 / 35184372088832)"
      by (rule round_float64_exact [where m = "2712715088048947" and e = "- 45"]) simp_all
    show ?thesis by (simp only: fadd_def e r)
  qed
  have d1: "fsub (2712715088048947 / 35184372088832) 0 = (2712715088048947 / 35184372088832)"
  proof -
    have e: "((2712715088048947 / 35184372088832) :: rat) - 0 = (2712715088048947 / 35184372088832)" by simp
    have r: "round_float64 (2712715088048947 / 35184372088832) = (2712715088048947 / 35184372088832)"
      by (rule round_float64_exact [where m = "2712715088048947" and e = "- 45"]) simp_all
    show ?thesis by (simp only: fsub_def e r)
  qed
  have c1: "fsub (2712715088048947 / 35184372088832) (2712715088048947 / 35184372088832) = 0"
  proof -
    have e: "((2712715088048947 / 35184372088832) :: rat) - (2712715088048947 / 35184372088832) = 0" by simp
    have r: "round_float64 0 = 0" by (rule round_float64_zero)
    show ?thesis by (simp only: fsub_def e r)
  qed
  have k1: "kahan_step \<lparr> sumx = 0, compensation = 0, nobs = 0 \<rparr> (2712715088048947 / 35184372088832)
      = \<lparr> sumx = (2712715088048947 / 35184372088832), compensation = 0, nobs = Suc 0 \<rparr>"
    by (simp only: kahan_step_def Let_def group_acc.select_convs y1 t1 d1 c1)
  have y2: "fsub (8950904259398861 / 281474976710656) 0 = (8950904259398861 / 281474976710656)"
  proof -
    have e: "((8950904259398861 / 281474976710656) :: rat) - 0 = (8950904259398861 / 281474976710656)" by simp
    have r: "round_float64 (8950904259398861 / 281474976710656) = (8950904259398861 / 281474976710656)"
      by (rule round_float64_exact [where m = "8950904259398861" and e = "- 48"]) simp_all
    show ?thesis by (simp only: fsub_def e r)
  qed
  have t2: "fadd (2712715088048947 / 35184372088832) (8950904259398861 / 281474976710656) = (7663156240947609 / 70368744177664)"
  proof -
    have e: "((2712715088048947 / 35184372088832) :: rat) + (8950904259398861 / 281474976710656) = (30652624963790437 / 281474976710656)" by simp
    have "round_float64 (30652624963790437 / 281474976710656) = of_int (7663156240947609) * 2 powi (- 46)"
      by (rule round_float64_near) simp_all
    then have r: "round_float64 (30652624963790437 / 281474976710656) = (7663156240947609 / 70368744177664)" by simp
    show ?thesis by (simp only: fadd_def e r)
  qed
  have d2: "fsub (7663156240947609 / 70368744177664) (2712715088048947 / 35184372088832) = (2237726064849715 / 70368744177664)"
  proof -
    have e: "((7663156240947609 / 70368744177664) :: rat) - (2712715088048947 / 35184372088832) = (2237726064849715 / 70368744177664)" by simp
    have r: "round_float64 (2237726064849715 / 70368744177664) = (2237726064849715 / 70368744177664)"
      by (rule round_float64_exact [where m = "2237726064849715" and e = "- 46"]) simp_all
    show ?thesis by (simp only: fsub_def e r)
  qed
  have c2: "fsub (2237726064849715 / 70368744177664) (8950904259398861 / 281474976710656) = (- (1 / 281474976710656))"
  proof -
    have e: "((2237726064849715 / 70368744177664) :: rat) - (8950904259398861 / 281474976710656) = (- (1 / 281474976710656))" by simp
    have r: "round_float64 (- (1 / 281474976710656)) = (- (1 / 281474976710656))"
      by (rule round_float64_exact [where m = "- 1" and e = "- 48"]) simp_all
    show ?thesis by (simp only: fsub_def e r)
  qed
  have k2: "kahan_step \<lparr> sumx = (2712715088048947 / 35184372088832), compensation = 0, nobs = Suc 0 \<rparr> (8950904259398861 / 281474976710656)
      = \<lparr> sumx = (7663156240947609 / 70368744177664), compensation = (- (1 / 281474976710656)), nobs = Suc (Suc 0) \<rparr>"
    by (simp only: kahan_step_def Let_def group_acc.select_convs y2 t2 d2 c2)
  have y3: "fsub 55 (- (1 / 281474976710656)) = 55"
  proof -
    have e: "(55 :: rat) - (- (1 / 281474976710656)) = (15481123719086081 / 281474976710656)" by simp
    have "round_float64 (15481123719086081 / 281474976710656) = of_int (if even ((7740561859543040) :: int) then (7740561859543040) else (7740561859543040) + 1) * 2 powi (- 47)"
      by (rule round_float64_tie) simp_all
    then have r: "round_float64 (15481123719086081 / 281474976710656) = 55" by simp
    show ?thesis by (simp only: fsub_def e r)
  qed
  have t3: "fadd (7663156240947609 / 70368744177664) 55 = (1441679646339891 / 8796093022208)"
  proof -
    have e: "((7663156240947609 / 70368744177664) :: rat) + 55 = (11533437170719129 / 70368744177664)" by simp
    have "round_float64 (11533437170719129 / 70368744177664) = of_int (if even ((5766718585359564) :: int) then (5766718585359564) else (5766718585359564) + 1) * 2 powi (- 45)"
      by (rule round_float64_tie) simp_all
    then have r: "round_float64 (11533437170719129 / 70368744177664) = (1441679646339891 / 8796093022208)" by simp
    show ?thesis by (simp only: fadd_def e r)
  qed
  have d3: "fsub (1441679646339891 / 8796093022208) (7663156240947609 / 70368744177664) = (3870280929771519 / 70368744177664)"
  proof -
    have e: "((1441679646339891 / 8796093022208) :: rat) - (7663156240947609 / 70368744177664) = (3870280929771519 / 70368744177664)" by simp
    have r: "round_float64 (3870280929771519 / 70368744177664) = (3870280929771519 / 70368744177664)"
      by (rule round_float64_exact [where m = "3870280929771519" and e = "- 46"]) simp_all
    show ?thesis by (simp only: fsub_def e r)
  qed
  have c3: "fsub (3870280929771519 / 70368744177664) 55 = (- (1 / 70368744177664))"
  proof -
    have e: "((3870280929771519 / 70368744177664) :: rat) - 55 = (- (1 / 70368744177664))" by simp
    have r: "round_float64 (- (1 / 70368744177664)) = (- (1 / 70368744177664))"
      by (rule round_float64_exact [where m = "- 1" and e = "- 46"]) simp_all
    show ?thesis by (simp only: fsub_def e r)
  qed
  have k3: "kahan_step \<lparr> sumx = (7663156240947609 / 70368744177664), compensation = (- (1 / 281474976710656)), nobs = Suc (Suc 0) \<rparr> 55
      = \<lparr> sumx = (1441679646339891 / 8796093022208), compensation = (- (1 / 70368744177664)), nobs = Suc (Suc (Suc 0)) \<rparr>"
    by (simp only: kahan_step_def Let_def group_acc.select_convs y3 t3 d3 c3)
  have q: "fdiv (1441679646339891 / 8796093022208) 3 = (480559882113297 / 8796093022208)"
  proof -
    have e: "((1441679646339891 / 8796093022208) :: rat) / 3 = (480559882113297 / 8796093022208)" by simp
    have r: "round_float64 (480559882113297 / 8796093022208) = (480559882113297 / 8796093022208)"
      by (rule round_float64_exact [where m = "480559882113297" and e = "- 43"]) simp_all
    show ?thesis by (simp only: fdiv_def e r)
  qed
  have ms: "marks_of ''Undergraduate'' [student_a, student_b, student_c] = [(2712715088048947 / 35184372088832), (8950904259398861 / 281474976710656), 55]"
    by (simp add: marks_of_def student_a_def student_b_def student_c_def example_profile_def
        float_77_1 float_31_8)
  have fold: "foldl kahan_step zero_acc [(2712715088048947 / 35184372088832), (8950904259398861 / 281474976710656), 55]
      = \<lparr> sumx = (1441679646339891 / 8796093022208), compensation = (- (1 / 70368744177664)), nobs = Suc (Suc (Suc 0)) \<rparr>"
    by (simp only: foldl.simps zero_acc_def k1 k2 k3)
  have len: "rat_of_nat (length [(2712715088048947 / 35184372088832), (8950904259398861 / 281474976710656), 55]) = 3" by simp
  have qq: "fdiv (sumx \<lparr> sumx = (1441679646339891 / 8796093022208), compensation = (- (1 / 70368744177664)), nobs = Suc (Suc (Suc 0)) \<rparr>)
          (of_nat (length [(2712715088048947 / 35184372088832), (8950904259398861 / 281474976710656), 55])) = (480559882113297 / 8796093022208)"
    by (simp only: group_acc.select_convs len q)
  show ?thesis by (rule avg_marks_from_fold [OF ms _ fold qq]) simp
qed

lemma mean_in_second_order:
  "avg_marks [student_a, student_c, student_b] ''Undergraduate'' = Some (7688958113812753 / 140737488355328)"
proof -
  have y1: "fsub (2712715088048947 / 35184372088832) 0 = (2712715088048947 / 35184372088832)"
  proof -
    have e: "((2712715088048947 / 35184372088832) :: rat) - 0 = (2712715088048947 / 35184372088832)" by simp
    have r: "round_float64 (2712715088048947 / 35184372088832) = (2712715088048947 / 35184372088832)"
      by (rule round_float64_exact [where m = "2712715088048947" and e = "- 45"]) simp_all
    show ?thesis by (simp only: fsub_def e r)
  qed
  have t1: "fadd 0 (2712715088048947 / 35184372088832) = (2712715088048947 / 35184372088832)"
  proof -
    have e: "(0 :: rat) + (2712715088048947 / 35184372088832) = (2712715088048947 / 35184372088832)" by simp
    have r: "round_float64 (2712715088048947 / 35184372088832) = (2712715088048947 / 35184372088832)"
      by (rule round_float64_exact [where m = "2712715088048947" and e = "- 45"]) simp_all
    show ?thesis by (simp only: fadd_def e r)
  qed
  have d1: "fsub (2712715088048947 / 35184372088832) 0 = (2712715088048947 / 35184372088832)"
  proof -
    have e: "((2712715088048947 / 35184372088832) :: rat) - 0 = (2712715088048947 / 35184372088832)" by simp
    have r: "round_float64 (2712715088048947 / 35184372088832) = (2712715088048947 / 35184372088832)"
      by (rule round_float64_exact [where m = "2712715088048947" and e = "- 45"]) simp_all
    show ?thesis by (simp only: fsub_def e r)
  qed
  have c1: "fsub (2712715088048947 / 35184372088832) (2712715088048947 / 35184372088832) = 0"
  proof -
    have e: "((2712715088048947 / 35184372088832) :: rat) - (2712715088048947 / 35184372088832) = 0" by simp
    have r: "round_float64 0 = 0" by (rule round_float64_zero)
    show ?thesis by (simp only: fsub_def e r)
  qed
  have k1: "kahan_step \<lparr> sumx = 0, compensation = 0, nobs = 0 \<rparr> (2712715088048947 / 35184372088832)
      = \<lparr> sumx = (2712715088048947 / 35184372088832), compensation = 0, nobs = Suc 0 \<rparr>"
    by (simp only: kahan_step_def Let_def group_acc.select_convs y1 t1 d1 c1)
  have y2: "fsub 55 0 = 55"
  proof -
    have e: "(55 :: rat) - 0 = 55" by simp
    have r: "round_float64 55 = 55"
      by (rule round_float64_exact [where m = "55" and e = "0"]) simp_all
    show ?thesis by (simp only: fsub_def e r)
  qed
  have t2: "fadd (2712715088048947 / 35184372088832) 55 = (4647855552934707 / 35184372088832)"
  proof -
    have e: "((2712715088048947 / 35184372088832) :: rat) + 55 = (4647855552934707 / 35184372088832)" by simp
    have r: "round_float64 (4647855552934707 / 35184372088832) = (4647855552934707 / 35184372088832)"
      by (rule round_float64_exact [where m = "4647855552934707" and e = "- 45"]) simp_all
    show ?thesis by (simp only: fadd_def e r)
  qed
  have d2: "fsub (4647855552934707 / 35184372088832) (2712715088048947 / 35184372088832) = 55"
  proof -
    have e: "((4647855552934707 / 35184372088832) :: rat) - (2712715088048947 / 35184372088832) = 55" by simp
    have r: "round_float64 55 = 55"
      by (rule round_float64_exact [where m = "55" and e = "0"]) simp_all
    show ?thesis by (simp only: fsub_def e r)
  qed
  have c2: "fsub 55 55 = 0"
  proof -
    have e: "(55 :: rat) - 55 = 0" by simp
    have r: "round_float64 0 = 0" by (rule round_float64_zero)
    show ?thesis by (simp only: fsub_def e r)
  qed
  have k2: "kahan_step \<lparr> sumx = (2712715088048947 / 35184372088832), compensation = 0, nobs = Suc 0 \<rparr> 55
      = \<lparr> sumx = (4647855552934707 / 35184372088832), compensation = 0, nobs = Suc (Suc 0) \<rparr>"
    by (simp only: kahan_step_def Let_def group_acc.select_convs y2 t2 d2 c2)
  have y3: "fsub (8950904259398861 / 281474976710656) 0 = (8950904259398861 / 281474976710656)"
  proof -
    have e: "((8950904259398861 / 281474976710656) :: rat) - 0 = (8950904259398861 / 281474976710656)" by simp
    have r: "round_float64 (8950904259398861 / 281474976710656) = (8950904259398861 / 281474976710656)"
      by (rule round_float64_exact [where m = "8950904259398861" and e = "- 48"]) simp_all
    show ?thesis by (simp only: fsub_def e r)
  qed
  have t3: "fadd (4647855552934707 / 35184372088832) (8950904259398861 / 281474976710656) = (5766718585359565 / 35184372088832)"
  proof -
    have e: "((4647855552934707 / 35184372088832) :: rat) + (8950904259398861 / 281474976710656) = (46133748682876517 / 281474976710656)" by simp
    have "round_float64 (46133748682876517 / 281474976710656) = of_int (5766718585359565) * 2 powi (- 45)"
      by (rule round_float64_near) simp_all
    then have r: "round_float64 (46133748682876517 / 281474976710656) = (5766718585359565 / 35184372088832)" by simp
    show ?thesis by (simp only: fadd_def e r)
  qed
  have d3: "fsub (5766718585359565 / 35184372088832) (4647855552934707 / 35184372088832) = (559431516212429 / 17592186044416)"
  proof -
    have e: "((5766718585359565 / 35184372088832) :: rat) - (4647855552934707 / 35184372088832) = (559431516212429 / 17592186044416)" by simp
    have r: "round_float64 (559431516212429 / 17592186044416) = (559431516212429 / 17592186044416)"
      by (rule round_float64_exact [where m = "559431516212429" and e = "- 44"]) simp_all
    show ?thesis by (simp only: fsub_def e r)
  qed
  have c3: "fsub (559431516212429 / 17592186044416) (8950904259398861 / 281474976710656) = (3 / 281474976710656)"
  proof -
    have e: "((559431516212429 / 17592186044416) :: rat) - (8950904259398861 / 281474976710656) = (3 / 281474976710656)" by simp
    have r: "round_float64 (3 / 281474976710656) = (3 / 281474976710656)"
      by (rule round_float64_exact [where m = "3" and e = "- 48"]) simp_all
    show ?thesis by (simp only: fsub_def e r)
  qed
  have k3: "kahan_step \<lparr> sumx = (4647855552934707 / 35184372088832), compensation = 0, nobs = Suc (Suc 0) \<rparr> (8950904259398861 / 281474976710656)
      = \<lparr> sumx = (5766718585359565 / 35184372088832), compensation = (3 / 281474976710656), nobs = Suc (Suc (Suc 0)) \<rparr>"
    by (simp only: kahan_step_def Let_def group_acc.select_convs y3 t3 d3 c3)
  have q: "fdiv (5766718585359565 / 35184372088832) 3 = (7688958113812753 / 140737488355328)"
  proof -
    have e: "((5766718585359565 / 35184372088832) :: rat) / 3 = (5766718585359565 / 105553116266496)" by simp
    have "round_float64 (5766718585359565 / 105553116266496) = of_int (7688958113812753) * 2 powi (- 47)"
      by (rule round_float64_near) simp_all
    then have r: "round_float64 (5766718585359565 / 105553116266496) = (7688958113812753 / 140737488355328)" by simp
    show ?thesis by (simp only: fdiv_def e r)
  qed
  have ms: "marks_of ''Undergraduate'' [student_a, student_c, student_b] = [(2712715088048947 / 35184372088832), 55, (8950904259398861 / 281474976710656)]"
    by (simp add: marks_of_def student_a_def student_b_def student_c_def example_profile_def
        float_77_1 float_31_8)
  have fold: "foldl kahan_step zero_acc [(2712715088048947 / 35184372088832), 55, (8950904259398861 / 281474976710656)]
      = \<lparr> sumx = (5766718585359565 / 35184372088832), compensation = (3 / 281474976710656), nobs = Suc (Suc (Suc 0)) \<rparr>"
    by (simp only: foldl.simps zero_acc_def k1 k2 k3)
  have len: "rat_of_nat (length [(2712715088048947 / 35184372088832), 55, (8950904259398861 / 281474976710656)]) = 3" by simp
  have qq: "fdiv (sumx \<lparr> sumx = (5766718585359565 / 35184372088832), compensation = (3 / 281474976710656), nobs = Suc (Suc (Suc 0)) \<rparr>)
          (of_nat (length [(2712715088048947 / 35184372088832), 55, (8950904259398861 / 281474976710656)])) = (7688958113812753 / 140737488355328)"
    by (simp only: group_acc.select_convs len q)
  show ?thesis by (rule avg_marks_from_fold [OF ms _ fold qq]) simp
qed

text \<open>
  Claim C10, as stated, at a concrete input: the same three rows in two orders have
  different means of the marks for their education level.
\<close>

theorem mean_depends_on_order:
  "mset [student_a, student_b, student_c] = mset [student_a, student_c, student_b] \<and>
   avg_marks [student_a, student_b, student_c] ''Undergraduate''
     = Some (480559882113297 / 8796093022208) \<and>
   avg_marks [student_a, student_c, student_b] ''Undergraduate''
     = Some (7688958113812753 / 140737488355328) \<and>
   avg_marks [student_a, student_b, student_c] \<noteq> avg_marks [student_a, student_c, student_b]"
proof -
  have m: "mset [student_a, student_b, student_c] = mset [student_a, student_c, student_b]"
    by (simp add: add.commute)
  have "avg_marks [student_a, student_b, student_c] ''Undergraduate''
        \<noteq> avg_marks [student_a, student_c, student_b] ''Undergraduate''"
    by (simp add: mean_in_first_order mean_in_second_order)
  then have "avg_marks [student_a, student_b, student_c]
        \<noteq> avg_marks [student_a, student_c, student_b]"
    by metis
  with m mean_in_first_order mean_in_second_order show ?thesis by blast
qed

text \<open>
  Claim C10, amended. The four count aggregates (students by education level, students by
  field of study, skill tag counts, interest tag counts) depend only on the multiset of
  the rows, not on their order, and so does the set of education levels that get a mean.
\<close>

theorem count_aggregates_permutation:
  "mset df = mset df' \<Longrightarrow>
     education_counts df = education_counts df' \<and>
     field_counts df = field_counts df' \<and>
     skill_counts df = skill_counts df' \<and>
     interest_counts df = interest_counts df' \<and>
     dom (avg_marks df) = dom (avg_marks df')"
proof -
  assume m: "mset df = mset df'"
  from m have e: "mset (map education_level df) = mset (map education_level df')"
    by (metis mset_map)
  then have a: "education_counts df = education_counts df'"
    unfolding education_counts_def by (rule value_counts_mset)
  from m have "mset (map field_of_study df) = mset (map field_of_study df')"
    by (metis mset_map)
  then have b: "field_counts df = field_counts df'"
    unfolding field_counts_def by (rule value_counts_mset)
  have c: "skill_counts df = skill_counts df'"
    unfolding skill_counts_def all_skills_def
    by (rule value_counts_mset) (rule mset_concat_map [OF m])
  have d: "interest_counts df = interest_counts df'"
    unfolding interest_counts_def all_interests_def
    by (rule value_counts_mset) (rule mset_concat_map [OF m])
  from e have "set (map education_level df) = set (map education_level df')"
    by (rule mset_eq_setD)
  then have "dom (avg_marks df) = dom (avg_marks df')"
    by (simp only: dom_avg_marks)
  with a b c d show ?thesis by blast
qed

text \<open>The statement at a concrete input: the three rows above in their two orders.\<close>

theorem count_aggregates_permutation_witness:
  "mset [student_a, student_b, student_c] = mset [student_a, student_c, student_b] \<and>
   education_counts [student_a, student_b, student_c]
     = education_counts [student_a, student_c, student_b] \<and>
   field_counts [student_a, student_b, student_c]
     = field_counts [student_a, student_c, student_b] \<and>
   skill_counts [student_a, student_b, student_c]
     = skill_counts [student_a, student_c, student_b] \<and>
   interest_counts [student_a, student_b, student_c]
     = interest_counts [student_a, student_c, student_b] \<and>
   education_counts [student_a, student_b, student_c] ''Undergraduate'' = Some 3"
proof -
  have m: "mset [student_a, student_b, student_c] = mset [student_a, student_c, student_b]"
    by (simp add: add.commute)
  have "education_counts [student_a, student_b, student_c] ''Undergraduate'' = Some 3"
    by (simp add: education_counts_def value_counts_def student_a_def student_b_def
        student_c_def example_profile_def)
  with count_aggregates_permutation [OF m] m show ?thesis by blast
qed

end
